theory Spec2Isabelle
  imports Complex_Main
begin

section \<open>Python values and exceptions\<close>

text \<open>
  The node speaks JSON, and the client keeps the parsed responses as Python values.
  A dict is an association list read with \<open>map_of\<close>; a Python \<open>str\<close> is a
  \<open>string\<close>. \<open>JNull\<close> is Python's \<open>None\<close>.
\<close>

datatype json =
    JNull
  | JBool bool
  | JInt int
  | JStr string
  | JList "json list"
  | JDict "(string \<times> json) list"

type_synonym dict = "(string \<times> json) list"

text \<open>
  Every exception the modelled code can raise. The exceptions of \<open>tronpy.exceptions\<close>
  carry the arguments they are raised with; \<open>LibraryError\<close> stands for whatever an
  external collaborator (address codec, signer, ABI codec) raises.
\<close>

datatype error =
    AssertionError string
  | TypeError
  | KeyError
  | IndexError
  | AttributeError
  | ValueError
  | OverflowError
  | LibraryError
  | BadKey string string string
  | ApiError json
  | BadSignature json
  | TaposError json
  | TransactionError json
  | ValidationError json
  | UnknownError json json
  | TransactionNotFound string
  | TvmError json

text \<open>Sequencing of computations that may raise: the first exception wins.\<close>

definition ebind :: "error + 'a \<Rightarrow> ('a \<Rightarrow> error + 'b) \<Rightarrow> error + 'b" where
  "ebind m f = (case m of Inl e \<Rightarrow> Inl e | Inr x \<Rightarrow> f x)"

text \<open>Truth value of a Python object, as \<open>if x:\<close> and \<open>not x\<close> test it.\<close>

fun truthy :: "json \<Rightarrow> bool" where
  "truthy JNull = False"
| "truthy (JBool b) = b"
| "truthy (JInt n) = (n \<noteq> 0)"
| "truthy (JStr s) = (s \<noteq> [])"
| "truthy (JList xs) = (xs \<noteq> [])"
| "truthy (JDict d) = (d \<noteq> [])"

text \<open>\<open>d.get(k, default)\<close> on a dict.\<close>

definition dict_get :: "dict \<Rightarrow> string \<Rightarrow> json \<Rightarrow> json" where
  "dict_get d k dflt = (case map_of d k of None \<Rightarrow> dflt | Some v \<Rightarrow> v)"

text \<open>\<open>x.get(k, default)\<close> on any value: only a dict has the method.\<close>

fun py_get :: "json \<Rightarrow> string \<Rightarrow> json \<Rightarrow> error + json" where
  "py_get (JDict d) k dflt = Inr (dict_get d k dflt)"
| "py_get _ k dflt = Inl AttributeError"

text \<open>\<open>x[k]\<close> with a string key: a missing key raises, and so does a value that is
  no dict (a list or a string wants an integer index).\<close>

fun getitem :: "json \<Rightarrow> string \<Rightarrow> error + json" where
  "getitem (JDict d) k = (case map_of d k of None \<Rightarrow> Inl KeyError | Some v \<Rightarrow> Inr v)"
| "getitem _ k = Inl TypeError"

text \<open>\<open>x[0]\<close>: the first element of a list, the first character of a string; a dict
  of string keys has no key \<open>0\<close>.\<close>

fun getitem0 :: "json \<Rightarrow> error + json" where
  "getitem0 (JList []) = Inl IndexError"
| "getitem0 (JList (x # xs)) = Inr x"
| "getitem0 (JStr []) = Inl IndexError"
| "getitem0 (JStr (c # cs)) = Inr (JStr [c])"
| "getitem0 (JDict d) = Inl KeyError"
| "getitem0 _ = Inl TypeError"

text \<open>\<open>len(x)\<close>.\<close>

fun py_len :: "json \<Rightarrow> error + nat" where
  "py_len (JStr s) = Inr (length s)"
| "py_len (JList xs) = Inr (length xs)"
| "py_len (JDict d) = Inr (length d)"
| "py_len _ = Inl TypeError"

text \<open>\<open>for x in v\<close>: the elements of a list, the characters of a string, the keys of
  a dict.\<close>

fun py_iter :: "json \<Rightarrow> error + json list" where
  "py_iter (JList xs) = Inr xs"
| "py_iter (JStr s) = Inr (map (\<lambda>c. JStr [c]) s)"
| "py_iter (JDict d) = Inr (map (\<lambda>kv. JStr (fst kv)) d)"
| "py_iter _ = Inl TypeError"

subsection \<open>Hexadecimal text\<close>

definition is_space :: "char \<Rightarrow> bool" where
  "is_space c = (c \<in> set [CHR '' '', CHR 0x09, CHR 0x0A, CHR 0x0B, CHR 0x0C, CHR 0x0D])"

definition hex_val :: "char \<Rightarrow> nat option" where
  "hex_val c =
     (let n = of_char c :: nat in
      if 48 \<le> n \<and> n \<le> 57 then Some (n - 48)
      else if 97 \<le> n \<and> n \<le> 102 then Some (n - 87)
      else if 65 \<le> n \<and> n \<le> 70 then Some (n - 55)
      else None)"

text \<open>\<open>bytes.fromhex(s)\<close>: pairs of hex digits, white space allowed between the
  pairs; anything else raises ValueError.\<close>

fun fromhex :: "string \<Rightarrow> error + nat list" where
  "fromhex [] = Inr []"
| "fromhex [c] = (if is_space c then Inr [] else Inl ValueError)"
| "fromhex (c # d # cs) =
     (if is_space c then fromhex (d # cs)
      else (case (hex_val c, hex_val d) of
              (Some h, Some l) \<Rightarrow> ebind (fromhex cs) (\<lambda>bs. Inr ((16 * h + l) # bs))
            | _ \<Rightarrow> Inl ValueError))"

text \<open>\<open>bytes.fromhex\<close> of an arbitrary value: only a \<open>str\<close> is accepted.\<close>

fun py_fromhex :: "json \<Rightarrow> error + nat list" where
  "py_fromhex (JStr s) = fromhex s"
| "py_fromhex _ = Inl TypeError"

text \<open>\<open>s.startswith(p)\<close>.\<close>

definition startswith :: "string \<Rightarrow> string \<Rightarrow> bool" where
  "startswith s p = (take (length p) s = p)"

subsection \<open>External collaborators\<close>

text \<open>
  Functions of Python's library and of other modules of the package, which the modelled
  code calls and whose results it only passes on. They are parameters of the model:
  \<^item> \<open>py_str\<close>: \<open>str(x)\<close>, as an f-string and \<open>str(payload)\<close> use it;
  \<^item> \<open>utf8_decode\<close>: \<open>bytes.decode()\<close>;
  \<^item> \<open>abi_decode_string\<close>: \<open>tron_abi.decode_single("string", bytes)\<close>;
  \<^item> \<open>to_base58check_address\<close>: \<open>keys.to_base58check_address\<close>;
  \<^item> \<open>int16\<close>: \<open>int(s, 16)\<close>;
  \<^item> \<open>truediv\<close>: \<open>n / d\<close> on two ints, a float (OverflowError when too large);
  \<^item> \<open>decimal_div\<close>: \<open>Decimal(v) / Decimal(d)\<close>.
  The type \<open>'n\<close> is that of the numbers (float, Decimal) the model never inspects.
\<close>

record 'n ext =
  py_str :: "json \<Rightarrow> string"
  utf8_decode :: "nat list \<Rightarrow> error + string"
  abi_decode_string :: "nat list \<Rightarrow> error + string"
  to_base58check_address :: "json \<Rightarrow> error + string"
  int16 :: "string \<Rightarrow> error + int"
  truediv :: "int \<Rightarrow> int \<Rightarrow> error + 'n"
  decimal_div :: "json \<Rightarrow> int \<Rightarrow> error + 'n"

text \<open>\<open>f"{v}"\<close>: a \<open>str\<close> is inserted as it is, any other value through
  \<open>str\<close>.\<close>

definition format_value :: "'n ext \<Rightarrow> json \<Rightarrow> string" where
  "format_value x v = (case v of JStr s \<Rightarrow> s | _ \<Rightarrow> py_str x v)"

subsection \<open>An instance of the collaborators\<close>

text \<open>
  For evaluating the model on concrete inputs: text is ASCII, an address is accepted
  when it has 42 characters, \<open>int(s, 16)\<close> reads plain hex digits, and numbers are
  rationals.
\<close>

fun hex_int :: "int \<Rightarrow> string \<Rightarrow> error + int" where
  "hex_int acc [] = Inr acc"
| "hex_int acc (c # cs) =
     (case hex_val c of None \<Rightarrow> Inl ValueError | Some v \<Rightarrow> hex_int (16 * acc + int v) cs)"

definition sample_ext :: "rat ext" where
  "sample_ext =
     \<lparr> py_str = (\<lambda>v. ''<value>''),
       utf8_decode = (\<lambda>bs. if list_all (\<lambda>b. b < 128) bs then Inr (map char_of bs) else Inl ValueError),
       abi_decode_string = (\<lambda>bs. if bs = [] then Inl LibraryError else Inr (map char_of bs)),
       to_base58check_address =
         (\<lambda>v. case v of JStr s \<Rightarrow> if length s = 42 then Inr (CHR ''T'' # s) else Inl LibraryError
                       | _ \<Rightarrow> Inl LibraryError),
       int16 = (\<lambda>s. if s = [] then Inl ValueError else hex_int 0 s),
       truediv = (\<lambda>n d. if d = 0 then Inl LibraryError else Inr (of_int n / of_int d)),
       decimal_div = (\<lambda>v d. case v of JInt n \<Rightarrow> if d = 0 then Inl LibraryError else Inr (of_int n / of_int d)
                               | _ \<Rightarrow> Inl LibraryError) \<rparr>"

section \<open>Shared API-error classification\<close>

text \<open>The message of a coded failure: the hex-encoded \<open>message\<close> field decoded, and
  when that raises, the field as it is, or \<open>str(payload)\<close> without one.\<close>

definition error_msg :: "'n ext \<Rightarrow> dict \<Rightarrow> json" where
  "error_msg x payload =
     (case ebind (ebind (getitem (JDict payload) ''message'') py_fromhex) (utf8_decode x) of
        Inr m \<Rightarrow> JStr m
      | Inl e \<Rightarrow> dict_get payload ''message'' (JStr (py_str x (JDict payload))))"

text \<open>The error raised for a payload with a \<open>code\<close> field.\<close>

definition code_error :: "json \<Rightarrow> json \<Rightarrow> error" where
  "code_error code msg =
     (if code = JStr ''SIGERROR'' then BadSignature msg
      else if code = JStr ''TAPOS_ERROR'' then TaposError msg
      else if code \<in> set [JStr ''TRANSACTION_EXPIRATION_ERROR'', JStr ''TOO_BIG_TRANSACTION_ERROR'']
        then TransactionError msg
      else if code = JStr ''CONTRACT_VALIDATE_ERROR'' then ValidationError msg
      else UnknownError msg code)"

definition dict_size :: "dict \<Rightarrow> nat" where
  "dict_size d = size (JDict d)"

lemma map_of_dict_size:
  "map_of d k = Some (JDict d') \<Longrightarrow> dict_size d' < dict_size d"
  by (induction d) (auto simp: dict_size_def split: if_splits)

text \<open>\<open>AsyncTron._handle_api_error\<close>: \<open>Inr ()\<close> is a return without an exception.\<close>

function handle_api_error :: "'n ext \<Rightarrow> dict \<Rightarrow> error + unit" where
  "handle_api_error x payload =
     (if dict_get payload ''result'' JNull = JBool True then Inr ()
      else if map_of payload ''Error'' \<noteq> None
        then Inl (ApiError (dict_get payload ''Error'' JNull))
      else if map_of payload ''code'' \<noteq> None
        then Inl (code_error (dict_get payload ''code'' JNull) (error_msg x payload))
      else (case map_of payload ''result'' of
              Some (JDict d) \<Rightarrow> handle_api_error x d
            | _ \<Rightarrow> Inr ()))"
  by pat_completeness auto
termination
  by (relation "measure (\<lambda>(x, payload). dict_size payload)")
     (auto simp: map_of_dict_size)

declare handle_api_error.simps [simp del]

section \<open>Transactions\<close>

text \<open>
  The permission of a transaction is the sentinel \<open>EMPTY\<close> (not fetched yet) or a
  value: \<open>Perm JNull\<close> is Python's \<open>None\<close>, the default permission.
\<close>

datatype permission = EMPTY | Perm json

text \<open>
  A private key, as far as \<open>sign\<close> uses it: the two renderings of its address and
  the hex form of its signature of a digest (\<open>sign_msg_hash(digest).hex()\<close>).
\<close>

record priv_key =
  hex_address :: string
  base58check_address :: string
  sign_msg_hash :: "nat list \<Rightarrow> error + string"

text \<open>
  \<open>AsyncTransaction\<close>: the fields \<open>_raw_data\<close>, \<open>_signature\<close>, \<open>txid\<close> and
  \<open>_permission\<close>. Values are trees, as parsed JSON is, with one exception that the
  constructor itself creates: when its argument has a key \<open>signature\<close> and no key
  \<open>raw_data\<close>, the field \<open>_signature\<close> is the very list stored in \<open>_raw_data\<close> under
  \<open>signature\<close>, and an append to it shows in both. \<open>signature_shared\<close> records that.
\<close>

record transaction =
  raw_data :: json
  signature :: json
  txid :: json
  permission :: permission
  signature_shared :: bool







text \<open>\<open>now >= v\<close> for the int \<open>now\<close>: a bool counts as 0 or 1, other values do not
  compare with an int.\<close>

fun int_ge :: "int \<Rightarrow> json \<Rightarrow> error + bool" where
  "int_ge now (JInt n) = Inr (n \<le> now)"
| "int_ge now (JBool b) = Inr ((if b then 1 else 0) \<le> now)"
| "int_ge now _ = Inl TypeError"

text \<open>\<open>is_expired\<close>, with the value \<open>now\<close> of \<open>current_timestamp()\<close>.\<close>

definition is_expired :: "int \<Rightarrow> transaction \<Rightarrow> error + bool" where
  "is_expired now tx = ebind (getitem (raw_data tx) ''expiration'') (int_ge now)"

text \<open>The loop of \<open>sign\<close> over \<open>permission["keys"]\<close>: whether some entry has the
  address; an entry that cannot be read raises before later entries are looked at.\<close>

fun key_listed :: "string \<Rightarrow> json list \<Rightarrow> error + bool" where
  "key_listed addr [] = Inr False"
| "key_listed addr (k # ks) =
     ebind (getitem k ''address'')
       (\<lambda>a. if a = JStr addr then Inr True else key_listed addr ks)"

text \<open>The permission check of \<open>sign\<close>. BadKey is raised with its three strings: the
  message, \<open>f"provided {address}"\<close> and \<open>f"required {permission}"\<close>.\<close>

definition check_permission :: "'n ext \<Rightarrow> priv_key \<Rightarrow> permission \<Rightarrow> error + unit" where
  "check_permission x key perm =
     (case perm of
        EMPTY \<Rightarrow> Inl TypeError
      | Perm JNull \<Rightarrow> Inr ()
      | Perm p \<Rightarrow>
          ebind (ebind (ebind (getitem p ''keys'') py_iter) (key_listed (hex_address key)))
            (\<lambda>found. if found then Inr ()
               else Inl (BadKey ''provided private key is not in the permission list''
                           (''provided '' @ base58check_address key)
                           (''required '' @ format_value x p))))"

text \<open>\<open>d[k] = v\<close> on a dict that has the key.\<close>

definition dict_set :: "dict \<Rightarrow> string \<Rightarrow> json \<Rightarrow> dict" where
  "dict_set d k v = map (\<lambda>kv. if fst kv = k then (k, v) else kv) d"

text \<open>
  \<open>sign\<close>: the exception raised, if any, and the transaction after the call. The two
  \<open>assert\<close> statements are executed, as they are unless Python runs with \<open>-O\<close>. The
  append is in place, so it shows in \<open>_raw_data\<close> too when the list is shared.
\<close>

definition sign :: "'n ext \<Rightarrow> int \<Rightarrow> priv_key \<Rightarrow> transaction \<Rightarrow> error option \<times> transaction" where
  "sign x now key tx =
     (if \<not> truthy (txid tx) then (Some (AssertionError ''txID not calculated''), tx)
      else (case is_expired now tx of
              Inl e \<Rightarrow> (Some e, tx)
            | Inr expired \<Rightarrow>
                if expired then (Some (AssertionError ''expired''), tx)
                else (case check_permission x key (permission tx) of
                        Inl e \<Rightarrow> (Some e, tx)
                      | Inr u \<Rightarrow>
                          (case ebind (py_fromhex (txid tx)) (sign_msg_hash key) of
                             Inl e \<Rightarrow> (Some e, tx)
                           | Inr sig \<Rightarrow>
                               (case signature tx of
                                  JList sigs \<Rightarrow>
                                    (None,
                                     tx\<lparr>signature := JList (sigs @ [JStr sig]),
                                        raw_data :=
                                          (case raw_data tx of
                                             JDict d \<Rightarrow>
                                               if signature_shared tx
                                               then JDict (dict_set d ''signature''
                                                             (JList (sigs @ [JStr sig])))
                                               else raw_data tx
                                           | v \<Rightarrow> v)\<rparr>)
                                | _ \<Rightarrow> (Some AttributeError, tx))))))"

section \<open>Waiting for a transaction\<close>

text \<open>
  \<open>AsyncTransactionRet.wait\<close>. The clock is the sequence of the values that successive
  calls of \<open>time.time()\<close> return, in seconds; \<open>get_info i\<close> is the outcome of the
  \<open>i\<close>-th call of the chosen client method (\<open>get_transaction_info\<close> or
  \<open>get_solid_transaction_info\<close>). The pause \<open>asyncio.sleep(interval)\<close> shows only in
  the later values of the clock. The loop may run forever, so its result is an option;
  it returns the outcome and the number of calls of the client method.
\<close>

partial_function (option) wait_loop ::
  "(nat \<Rightarrow> real) \<Rightarrow> (nat \<Rightarrow> error + dict) \<Rightarrow> real \<Rightarrow> nat \<Rightarrow> ((error + dict) \<times> nat) option" where
  "wait_loop clock get_info end_time i =
     (if clock (Suc i) < end_time
      then (case get_info i of
              Inr receipt \<Rightarrow> Some (Inr receipt, Suc i)
            | Inl e \<Rightarrow>
                (case e of
                   TransactionNotFound m \<Rightarrow> wait_loop clock get_info end_time (Suc i)
                 | _ \<Rightarrow> Some (Inl e, Suc i)))
      else Some (Inl (TransactionNotFound ''timeout and can not find the transaction''), i))"

definition wait ::
  "(nat \<Rightarrow> real) \<Rightarrow> (nat \<Rightarrow> error + dict) \<Rightarrow> real \<Rightarrow> real \<Rightarrow> ((error + dict) \<times> nat) option" where
  "wait clock get_info timeout interval = wait_loop clock get_info (clock 0 + timeout) 0"

text \<open>
  The \<open>try\<close> block of \<open>result\<close> for a reverted call: the message to raise, and the
  byte strings handed to the string decoder (none when \<open>decode_single\<close> is not called).
  Every exception inside is swallowed and leaves the message as it was.
\<close>

definition revert_reason :: "'n ext \<Rightarrow> dict \<Rightarrow> json \<Rightarrow> json \<times> nat list list" where
  "revert_reason x receipt msg =
     (let res = dict_get receipt ''contractResult'' (JList []) in
      if truthy res
      then (case ebind (getitem0 res) (\<lambda>r0. ebind (py_len r0) (\<lambda>n. Inr (r0, n))) of
              Inl e \<Rightarrow> (msg, [])
            | Inr (r0, n) \<Rightarrow>
                if (4 + 32) * 2 < n
                then (case py_fromhex r0 of
                        Inl e \<Rightarrow> (msg, [])
                      | Inr bs \<Rightarrow>
                          (case abi_decode_string x (drop (4 + 32) bs) of
                             Inl e \<Rightarrow> (msg, [drop (4 + 32) bs])
                           | Inr reason \<Rightarrow>
                               (JStr (format_value x msg @ '': '' @ reason), [drop (4 + 32) bs])))
                else (msg, []))
      else (msg, []))"

text \<open>The part of \<open>result\<close> after the receipt has arrived; \<open>parse_output\<close> is the
  method's decoder of its return value.\<close>

definition receipt_result ::
  "'n ext \<Rightarrow> (json \<Rightarrow> error + 'r) \<Rightarrow> dict \<Rightarrow> (error + 'r) \<times> nat list list" where
  "receipt_result x parse_output receipt =
     (if dict_get receipt ''result'' JNull = JStr ''FAILED''
      then (let msg = dict_get receipt ''resMessage'' (dict_get receipt ''result'' JNull) in
            case ebind (getitem (JDict receipt) ''receipt'') (\<lambda>r. getitem r ''result'') of
              Inl e \<Rightarrow> (Inl e, [])
            | Inr rr \<Rightarrow>
                if rr = JStr ''REVERT''
                then (case revert_reason x receipt msg of
                        (msg', attempts) \<Rightarrow> (Inl (TvmError msg'), attempts))
                else (Inl (TvmError msg), []))
      else (ebind (ebind (getitem (JDict receipt) ''contractResult'') getitem0) parse_output, []))"

text \<open>\<open>AsyncTransactionRet.result\<close>; \<open>method\<close> is \<open>None\<close> for a transaction that is no
  contract call.\<close>

definition result ::
  "'n ext \<Rightarrow> (json \<Rightarrow> error + 'r) option \<Rightarrow> (nat \<Rightarrow> real) \<Rightarrow> (nat \<Rightarrow> error + dict) \<Rightarrow> real \<Rightarrow> real
     \<Rightarrow> ((error + 'r) \<times> nat list list) option" where
  "result x method clock get_info timeout interval =
     (case method of
        None \<Rightarrow> Some (Inl TypeError, [])
      | Some parse_output \<Rightarrow>
          (case wait clock get_info timeout interval of
             None \<Rightarrow> None
           | Some (Inl e, n) \<Rightarrow> Some (Inl e, [])
           | Some (Inr receipt, n) \<Rightarrow> Some (receipt_result x parse_output receipt)))"




section \<open>Scanning blocks for transfers\<close>

text \<open>
  A transfer record of the scanner. Native transfers carry no \<open>method\<close> and always a
  \<open>resource\<close> dict; token transfers carry a \<open>method\<close>, and a \<open>resource\<close> only when
  the transaction has a receipt.
\<close>

record 'n transfer =
  t_block_number :: int
  t_timestamp :: json
  t_txid :: json
  t_from :: string
  t_to :: string
  t_amount :: 'n
  t_method :: "string option"
  t_resource :: "dict option"

text \<open>\<open>parse_usdt_transfer\<close>, the body of its outer \<open>try\<close>: an exception that escapes
  the two inner \<open>try\<close> blocks is an \<open>Inl\<close> here, a \<open>return None\<close> is \<open>Inr None\<close>.\<close>

definition parse_usdt_transfer_body ::
  "'n ext \<Rightarrow> dict \<Rightarrow> int \<Rightarrow> json \<Rightarrow> error + 'n transfer option" where
  "parse_usdt_transfer_body x tx block_num block_timestamp =
     ebind (ebind (ebind (getitem (JDict tx) ''raw_data'') (\<lambda>r. getitem r ''contract'')) getitem0)
       (\<lambda>contract.
     ebind (ebind (getitem contract ''parameter'') (\<lambda>p. getitem p ''value''))
       (\<lambda>val.
     ebind (py_get val ''data'' (JStr []))
       (\<lambda>data.
     (case data of
        JStr d \<Rightarrow>
          if startswith d ''a9059cbb''
          then (case ebind (to_base58check_address x (JStr (''41'' @ take 40 (drop 32 d)))) (\<lambda>to_addr.
                     ebind (ebind (int16 x (drop 72 d)) (\<lambda>n. truediv x n (10 ^ 6))) (\<lambda>amount.
                     ebind (ebind (getitem val ''owner_address'') (to_base58check_address x)) (\<lambda>from_addr.
                     Inr (from_addr, to_addr, amount)))) of
                  Inl e \<Rightarrow> Inr None
                | Inr (from_addr, to_addr, amount) \<Rightarrow>
                    ebind (getitem (JDict tx) ''txID'') (\<lambda>tid.
                      Inr (Some \<lparr> t_block_number = block_num, t_timestamp = block_timestamp,
                                  t_txid = tid, t_from = from_addr, t_to = to_addr,
                                  t_amount = amount, t_method = Some ''transfer'',
                                  t_resource = None \<rparr>)))
          else if startswith d ''23b872dd''
          then (case ebind (to_base58check_address x (JStr (''41'' @ take 40 (drop 32 d)))) (\<lambda>from_addr.
                     ebind (to_base58check_address x (JStr (''41'' @ take 40 (drop 72 d)))) (\<lambda>to_addr.
                     ebind (ebind (int16 x (drop 112 d)) (\<lambda>n. truediv x n (10 ^ 6))) (\<lambda>amount.
                     Inr (from_addr, to_addr, amount)))) of
                  Inl e \<Rightarrow> Inr None
                | Inr (from_addr, to_addr, amount) \<Rightarrow>
                    ebind (getitem (JDict tx) ''txID'') (\<lambda>tid.
                      Inr (Some \<lparr> t_block_number = block_num, t_timestamp = block_timestamp,
                                  t_txid = tid, t_from = from_addr, t_to = to_addr,
                                  t_amount = amount, t_method = Some ''transferFrom'',
                                  t_resource = None \<rparr>)))
          else Inr None
      | _ \<Rightarrow> Inl AttributeError))))"

text \<open>\<open>parse_usdt_transfer\<close>: the outer \<open>except Exception: return\<close> turns every
  exception of the body into the result \<open>None\<close>.\<close>

definition parse_usdt_transfer ::
  "'n ext \<Rightarrow> dict \<Rightarrow> int \<Rightarrow> json \<Rightarrow> error + 'n transfer option" where
  "parse_usdt_transfer x tx block_num block_timestamp =
     (case parse_usdt_transfer_body x tx block_num block_timestamp of
        Inl e \<Rightarrow> Inr None
      | Inr r \<Rightarrow> Inr r)"

text \<open>The header of a visited block, as \<open>result['blocks']\<close> keeps it.\<close>

record block_info =
  b_block_number :: int
  b_timestamp :: json
  b_hash :: json
  b_parent_hash :: json
  b_witness_address :: string
  b_transaction_count :: nat
  b_confirmed :: json

text \<open>The accumulator \<open>result\<close> of \<open>scan_block_transfers\<close>, with the four entries of
  \<open>result['stats']\<close> as fields.\<close>

record 'n scan_result =
  blocks :: "block_info list"
  transfers_trx :: "'n transfer list"
  transfers_usdt :: "'n transfer list"
  total_transactions :: nat
  failed_parse :: nat
  successful_parse :: nat
  failed_txids :: "json list"

definition USDT_CONTRACT_ADDRESS :: string where
  "USDT_CONTRACT_ADDRESS = ''TR7NHqjeKQxGTCi8q8ZY4pL8otSzgjLj6t''"

text \<open>The resource usage read from \<open>tx['ret'][0]\<close>, when the transaction has a
  non-empty \<open>ret\<close>.\<close>

definition resource_usage :: "dict \<Rightarrow> error + dict option" where
  "resource_usage tx =
     (case map_of tx ''ret'' of
        None \<Rightarrow> Inr None
      | Some ret \<Rightarrow>
          if truthy ret
          then ebind (getitem0 ret) (\<lambda>receipt.
                 case receipt of
                   JDict rd \<Rightarrow>
                     Inr (Some [(''energy_usage'', dict_get rd ''energy_usage'' (JInt 0)),
                                (''net_usage'', dict_get rd ''net_usage'' (JInt 0)),
                                (''energy_fee'', dict_get rd ''energy_fee'' (JInt 0)),
                                (''net_fee'', dict_get rd ''net_fee'' (JInt 0))])
                 | _ \<Rightarrow> Inl AttributeError)
          else Inr None)"

text \<open>\<open>address is None or address in [a, b]\<close>.\<close>

definition address_matches :: "string option \<Rightarrow> string \<Rightarrow> string \<Rightarrow> bool" where
  "address_matches address a b = (case address of None \<Rightarrow> True | Some ad \<Rightarrow> ad \<in> set [a, b])"

text \<open>\<open>tx.get('raw_data', {}).get('contract', [])\<close>.\<close>

definition contract_list :: "dict \<Rightarrow> error + json" where
  "contract_list tx = py_get (dict_get tx ''raw_data'' (JDict [])) ''contract'' (JList [])"

text \<open>\<open>tx['raw_data']['contract'][0]\<close>.\<close>

definition first_contract :: "dict \<Rightarrow> error + json" where
  "first_contract tx =
     ebind (ebind (getitem (JDict tx) ''raw_data'') (\<lambda>r. getitem r ''contract'')) getitem0"

text \<open>The native-transfer check of the loop over the transactions of a block.\<close>

definition scan_trx ::
  "'n ext \<Rightarrow> string option \<Rightarrow> int \<Rightarrow> json \<Rightarrow> dict \<Rightarrow> 'n scan_result \<Rightarrow> error + 'n scan_result" where
  "scan_trx x address block_num block_timestamp tx res =
     ebind (contract_list tx) (\<lambda>cs.
       if truthy cs
       then ebind (first_contract tx) (\<lambda>contract.
            ebind (getitem contract ''type'') (\<lambda>ty.
              if ty = JStr ''TransferContract''
              then ebind (ebind (getitem contract ''parameter'') (\<lambda>p. getitem p ''value'')) (\<lambda>val.
                   ebind (ebind (getitem val ''owner_address'') (to_base58check_address x)) (\<lambda>from_addr.
                   ebind (ebind (getitem val ''to_address'') (to_base58check_address x)) (\<lambda>to_addr.
                   ebind (ebind (getitem val ''amount'') (\<lambda>a. decimal_div x a (10 ^ 6))) (\<lambda>amount.
                   ebind (resource_usage tx) (\<lambda>resource.
                     if address_matches address from_addr to_addr
                     then ebind (getitem (JDict tx) ''txID'') (\<lambda>tid.
                            Inr (res\<lparr>transfers_trx := transfers_trx res @
                                   [\<lparr> t_block_number = block_num, t_timestamp = block_timestamp,
                                      t_txid = tid, t_from = from_addr, t_to = to_addr,
                                      t_amount = amount, t_method = None,
                                      t_resource = Some (case resource of None \<Rightarrow> [] | Some r \<Rightarrow> r) \<rparr>]\<rparr>))
                     else Inr res)))))
              else Inr res))
       else Inr res)"

text \<open>Whether the transaction is a token-transfer candidate: a \<open>TriggerSmartContract\<close>
  whose contract address is the fixed token contract. Reading it may raise.\<close>

definition usdt_candidate :: "'n ext \<Rightarrow> dict \<Rightarrow> error + bool" where
  "usdt_candidate x tx =
     ebind (contract_list tx) (\<lambda>cs.
       if truthy cs
       then ebind (first_contract tx) (\<lambda>contract.
            ebind (getitem contract ''type'') (\<lambda>ty.
              if ty = JStr ''TriggerSmartContract''
              then ebind (ebind (ebind (ebind (getitem contract ''parameter'')
                            (\<lambda>p. getitem p ''value'')) (\<lambda>v. getitem v ''contract_address''))
                            (to_base58check_address x))
                     (\<lambda>a. Inr (a = USDT_CONTRACT_ADDRESS))
              else Inr False))
       else Inr False)"

text \<open>The token-transfer check of the loop, for a candidate: the counters are updated
  in the order of the source.\<close>

definition count_usdt ::
  "'n ext \<Rightarrow> string option \<Rightarrow> int \<Rightarrow> json \<Rightarrow> dict \<Rightarrow> 'n scan_result \<Rightarrow> error + 'n scan_result" where
  "count_usdt x address block_num block_timestamp tx res =
     (let res1 = res\<lparr>total_transactions := total_transactions res + 1\<rparr> in
      ebind (parse_usdt_transfer x tx block_num block_timestamp) (\<lambda>transfer_info.
        case transfer_info of
          Some info \<Rightarrow>
            ebind (resource_usage tx) (\<lambda>resource.
              let info1 = (case resource of None \<Rightarrow> info | Some r \<Rightarrow> info\<lparr>t_resource := Some r\<rparr>);
                  res2 = res1\<lparr>successful_parse := successful_parse res1 + 1\<rparr>
              in if address_matches address (t_from info1) (t_to info1)
                 then Inr (res2\<lparr>transfers_usdt := transfers_usdt res2 @ [info1]\<rparr>)
                 else Inr res2)
        | None \<Rightarrow>
            (let res2 = res1\<lparr>failed_parse := failed_parse res1 + 1\<rparr> in
             ebind (getitem (JDict tx) ''txID'') (\<lambda>tid.
               Inr (res2\<lparr>failed_txids := failed_txids res2 @ [tid]\<rparr>)))))"

definition scan_usdt ::
  "'n ext \<Rightarrow> string option \<Rightarrow> int \<Rightarrow> json \<Rightarrow> dict \<Rightarrow> 'n scan_result \<Rightarrow> error + 'n scan_result" where
  "scan_usdt x address block_num block_timestamp tx res =
     ebind (usdt_candidate x tx) (\<lambda>c.
       if c then count_usdt x address block_num block_timestamp tx res else Inr res)"

text \<open>One round of the loop over the transactions: an element that is no dict has no
  \<open>get\<close>.\<close>

definition scan_tx ::
  "'n ext \<Rightarrow> string option \<Rightarrow> int \<Rightarrow> json \<Rightarrow> json \<Rightarrow> 'n scan_result \<Rightarrow> error + 'n scan_result" where
  "scan_tx x address block_num block_timestamp tx res =
     (case tx of
        JDict d \<Rightarrow>
          ebind (scan_trx x address block_num block_timestamp d res)
            (scan_usdt x address block_num block_timestamp d)
      | _ \<Rightarrow> Inl AttributeError)"

fun scan_txs ::
  "'n ext \<Rightarrow> string option \<Rightarrow> int \<Rightarrow> json \<Rightarrow> json list \<Rightarrow> 'n scan_result \<Rightarrow> error + 'n scan_result" where
  "scan_txs x address block_num block_timestamp [] res = Inr res"
| "scan_txs x address block_num block_timestamp (tx # txs) res =
     ebind (scan_tx x address block_num block_timestamp tx res)
       (scan_txs x address block_num block_timestamp txs)"

text \<open>One round of the loop over the block numbers; \<open>get_block\<close> is the client method.\<close>

definition scan_block ::
  "'n ext \<Rightarrow> (int \<Rightarrow> error + dict) \<Rightarrow> string option \<Rightarrow> int \<Rightarrow> 'n scan_result \<Rightarrow> error + 'n scan_result" where
  "scan_block x get_block address block_num res =
     ebind (get_block block_num) (\<lambda>block.
     ebind (ebind (getitem (JDict block) ''block_header'') (\<lambda>h. getitem h ''raw_data'')) (\<lambda>block_header.
     ebind (getitem block_header ''timestamp'') (\<lambda>ts.
     ebind (py_get block_header ''parentHash'' (JStr [])) (\<lambda>parent.
     ebind (ebind (py_get block_header ''witness_address'' (JStr [])) (to_base58check_address x)) (\<lambda>witness.
     ebind (py_len (dict_get block ''transactions'' (JList []))) (\<lambda>cnt.
       let res1 = res\<lparr>blocks := blocks res @
                    [\<lparr> b_block_number = block_num, b_timestamp = ts,
                       b_hash = dict_get block ''blockID'' (JStr []),
                       b_parent_hash = parent, b_witness_address = witness,
                       b_transaction_count = cnt,
                       b_confirmed = dict_get block ''confirmed'' (JBool True) \<rparr>]\<rparr>;
           txs = dict_get block ''transactions'' JNull
       in if \<not> truthy txs then Inr res1
          else ebind (py_iter txs) (\<lambda>items. scan_txs x address block_num ts items res1)))))))"

fun scan_blocks ::
  "'n ext \<Rightarrow> (int \<Rightarrow> error + dict) \<Rightarrow> string option \<Rightarrow> int list \<Rightarrow> 'n scan_result \<Rightarrow> error + 'n scan_result" where
  "scan_blocks x get_block address [] res = Inr res"
| "scan_blocks x get_block address (n # ns) res =
     ebind (scan_block x get_block address n res) (scan_blocks x get_block address ns)"

definition empty_result :: "'n scan_result" where
  "empty_result =
     \<lparr> blocks = [], transfers_trx = [], transfers_usdt = [], total_transactions = 0,
       failed_parse = 0, successful_parse = 0, failed_txids = [] \<rparr>"

text \<open>\<open>scan_block_transfers\<close>; \<open>latest\<close> is the outcome of \<open>get_latest_block_number\<close>,
  asked for only when no end block is given.\<close>

definition scan_block_transfers ::
  "'n ext \<Rightarrow> (int \<Rightarrow> error + dict) \<Rightarrow> error + int \<Rightarrow> int \<Rightarrow> int option \<Rightarrow> string option
     \<Rightarrow> error + 'n scan_result" where
  "scan_block_transfers x get_block latest start_block end_block address =
     ebind (case end_block of None \<Rightarrow> latest | Some e \<Rightarrow> Inr e) (\<lambda>e.
       scan_blocks x get_block address [start_block..e] empty_result)"

section \<open>Sample data\<close>

text \<open>Concrete inputs on which the theorems below are instantiated.\<close>

definition sample_key :: priv_key where
  "sample_key =
     \<lparr> hex_address = ''41aa'', base58check_address = ''Taa'',
       sign_msg_hash = (\<lambda>digest. if digest = [] then Inl LibraryError else Inr ''c0ffee'') \<rparr>"

definition sample_permission :: json where
  "sample_permission =
     JDict [(''keys'', JList [JDict [(''address'', JStr ''41bb''), (''weight'', JInt 1)]]),
            (''threshold'', JInt 1)]"

definition sample_tx :: transaction where
  "sample_tx =
     \<lparr> raw_data = JDict [(''expiration'', JInt 1000)], signature = JList [],
       txid = JStr ''ab'', permission = Perm sample_permission, signature_shared = False \<rparr>"



text \<open>A clock that advances by one second per reading, and receipts of a reverted
  call: one whose call result is the bare selector, one whose call result has 37
  bytes.\<close>

definition sample_ticks :: "nat \<Rightarrow> real" where
  "sample_ticks i = real i"

definition sample_receipt :: "string \<Rightarrow> dict" where
  "sample_receipt r0 =
     [(''result'', JStr ''FAILED''), (''resMessage'', JStr ''boom''),
      (''receipt'', JDict [(''result'', JStr ''REVERT'')]),
      (''contractResult'', JList [JStr r0])]"

definition sample_long :: string where
  "sample_long = ''08c379a0'' @ replicate 64 CHR ''0'' @ ''6f''"


text \<open>
  For the scanner: the collaborators with an address codec that knows the hex form of
  the token contract, a token-contract call with a given txid and call data, call data
  of a transfer of one token, the same cut off before the amount, and a provider whose
  block 7 holds three such calls.
\<close>

definition scan_ext :: "rat ext" where
  "scan_ext =
     sample_ext\<lparr>to_base58check_address :=
       (\<lambda>v. case v of
               JStr s \<Rightarrow>
                 if s = ''41a614f803b6fd780986a42c78ec9c7f77e6ded13c'' then Inr USDT_CONTRACT_ADDRESS
                 else if length s = 42 then Inr (CHR ''T'' # s)
                 else Inl LibraryError
             | _ \<Rightarrow> Inl LibraryError)\<rparr>"

definition sample_value :: "json \<Rightarrow> json" where
  "sample_value data =
     JDict [(''owner_address'', JStr (''41'' @ replicate 40 CHR ''a'')),
            (''contract_address'', JStr ''41a614f803b6fd780986a42c78ec9c7f77e6ded13c''),
            (''data'', data)]"

definition sample_contract :: "json \<Rightarrow> json" where
  "sample_contract data =
     JDict [(''type'', JStr ''TriggerSmartContract''),
            (''parameter'', JDict [(''value'', sample_value data)])]"

definition sample_call :: "string \<Rightarrow> json \<Rightarrow> dict" where
  "sample_call tid data =
     [(''txID'', JStr tid),
      (''raw_data'', JDict [(''contract'', JList [sample_contract data])])]"

definition transfer_data :: string where
  "transfer_data =
     ''a9059cbb'' @ replicate 24 CHR ''0'' @ replicate 40 CHR ''b'' @ replicate 58 CHR ''0'' @ ''0f4240''"

definition short_data :: string where
  "short_data = take 72 transfer_data"

definition sample_get_block :: "int \<Rightarrow> error + dict" where
  "sample_get_block n =
     Inr [(''block_header'', JDict [(''raw_data'', JDict
            [(''timestamp'', JInt 1), (''witness_address'', JStr (''41'' @ replicate 40 CHR ''c''))])]),
          (''transactions'',
             (if n = 7
              then JList [JDict (sample_call ''t1'' (JStr transfer_data)),
                          JDict (sample_call ''t2'' (JStr short_data)),
                          JDict (sample_call ''t3'' (JInt 5))]
              else JList []))]"

text \<open>The number of token-transfer candidates among the transactions of a block.\<close>

definition candidate_count :: "'n ext \<Rightarrow> json list \<Rightarrow> nat" where
  "candidate_count x txs =
     length (filter (\<lambda>tx. case tx of JDict d \<Rightarrow> usdt_candidate x d = Inr True | _ \<Rightarrow> False) txs)"

text \<open>What the scan of the blocks 6 to 8 of the sample provider returns.\<close>

definition sample_block_info :: "int \<Rightarrow> nat \<Rightarrow> block_info" where
  "sample_block_info n cnt =
     \<lparr> b_block_number = n, b_timestamp = JInt 1, b_hash = JStr [], b_parent_hash = JStr [],
       b_witness_address = CHR ''T'' # ''41'' @ replicate 40 CHR ''c'',
       b_transaction_count = cnt, b_confirmed = JBool True \<rparr>"

definition sample_scan_result :: "rat scan_result" where
  "sample_scan_result =
     \<lparr> blocks = [sample_block_info 6 0, sample_block_info 7 3, sample_block_info 8 0],
       transfers_trx = [],
       transfers_usdt =
         [\<lparr> t_block_number = 7, t_timestamp = JInt 1, t_txid = JStr ''t1'',
            t_from = CHR ''T'' # ''41'' @ replicate 40 CHR ''a'',
            t_to = CHR ''T'' # ''41'' @ replicate 40 CHR ''b'',
            t_amount = 1, t_method = Some ''transfer'', t_resource = None \<rparr>],
       total_transactions = 3, failed_parse = 2, successful_parse = 1,
       failed_txids = [JStr ''t2'', JStr ''t3''] \<rparr>"

text \<open>Call data of a \<open>transferFrom\<close>, laid out as \<open>parse_usdt_transfer\<close> reads it,
  and call data with another selector.\<close>

definition transfer_from_data :: string where
  "transfer_from_data =
     ''23b872dd'' @ replicate 24 CHR ''0'' @ replicate 40 CHR ''a'' @ replicate 40 CHR ''b'' @ ''0f4240''"

definition approve_data :: string where
  "approve_data = ''095ea7b3'' @ replicate 128 CHR ''0''"



section \<open>Theorems\<close>

text \<open>
  C10. A payload whose top-level \<open>result\<close> is the boolean \<open>True\<close> is accepted: the
  classifier returns without raising, whatever else the payload holds, an \<open>Error\<close> or
  a \<open>code\<close> field included.
\<close>

theorem handle_api_error_result_true:
  "map_of payload ''result'' = Some (JBool True) \<Longrightarrow> handle_api_error x payload = Inr ()"
  by (simp add: handle_api_error.simps dict_get_def)

theorem handle_api_error_result_true_witness:
  "handle_api_error sample_ext
     [(''result'', JBool True), (''Error'', JStr ''fault''), (''code'', JStr ''SIGERROR'')] = Inr ()"
  using handle_api_error_result_true
    [of "[(''result'', JBool True), (''Error'', JStr ''fault''), (''code'', JStr ''SIGERROR'')]" sample_ext]
  by simp

text \<open>
  C5, amended. For a payload whose top-level \<open>result\<close> is not the boolean \<open>True\<close>:
  an \<open>Error\<close> field raises ApiError; otherwise a \<open>code\<close> field raises the kind its
  value selects (SIGERROR: BadSignature, TAPOS_ERROR: TaposError,
  TRANSACTION_EXPIRATION_ERROR or TOO_BIG_TRANSACTION_ERROR: TransactionError,
  CONTRACT_VALIDATE_ERROR: ValidationError, any other code: UnknownError); otherwise a
  nested \<open>result\<close> dict is classified in its place; otherwise the call returns
  without raising, an explicit \<open>result: false\<close> included.
\<close>

theorem handle_api_error_classification:
  assumes "map_of payload ''result'' \<noteq> Some (JBool True)"
  shows "(\<forall>v. map_of payload ''Error'' = Some v \<longrightarrow>
            handle_api_error x payload = Inl (ApiError v))
       \<and> (\<forall>c. map_of payload ''Error'' = None \<and> map_of payload ''code'' = Some c \<longrightarrow>
            handle_api_error x payload =
              Inl (if c = JStr ''SIGERROR'' then BadSignature (error_msg x payload)
                   else if c = JStr ''TAPOS_ERROR'' then TaposError (error_msg x payload)
                   else if c = JStr ''TRANSACTION_EXPIRATION_ERROR''
                         \<or> c = JStr ''TOO_BIG_TRANSACTION_ERROR''
                     then TransactionError (error_msg x payload)
                   else if c = JStr ''CONTRACT_VALIDATE_ERROR''
                     then ValidationError (error_msg x payload)
                   else UnknownError (error_msg x payload) c))
       \<and> (\<forall>d. map_of payload ''Error'' = None \<and> map_of payload ''code'' = None
               \<and> map_of payload ''result'' = Some (JDict d) \<longrightarrow>
            handle_api_error x payload = handle_api_error x d)
       \<and> (map_of payload ''Error'' = None \<and> map_of payload ''code'' = None
            \<and> (\<forall>d. map_of payload ''result'' \<noteq> Some (JDict d)) \<longrightarrow>
            handle_api_error x payload = Inr ())"
proof -
  have nt: "dict_get payload ''result'' JNull \<noteq> JBool True"
    using assms by (auto simp: dict_get_def split: option.splits)
  have unf: "handle_api_error x payload =
      (if map_of payload ''Error'' \<noteq> None
        then Inl (ApiError (dict_get payload ''Error'' JNull))
      else if map_of payload ''code'' \<noteq> None
        then Inl (code_error (dict_get payload ''code'' JNull) (error_msg x payload))
      else (case map_of payload ''result'' of
              Some (JDict d) \<Rightarrow> handle_api_error x d
            | _ \<Rightarrow> Inr ()))"
    using nt by (subst handle_api_error.simps) simp
  have a: "\<forall>v. map_of payload ''Error'' = Some v \<longrightarrow>
            handle_api_error x payload = Inl (ApiError v)"
    by (simp add: unf dict_get_def)
  have b: "\<forall>c. map_of payload ''Error'' = None \<and> map_of payload ''code'' = Some c \<longrightarrow>
            handle_api_error x payload =
              Inl (if c = JStr ''SIGERROR'' then BadSignature (error_msg x payload)
                   else if c = JStr ''TAPOS_ERROR'' then TaposError (error_msg x payload)
                   else if c = JStr ''TRANSACTION_EXPIRATION_ERROR''
                         \<or> c = JStr ''TOO_BIG_TRANSACTION_ERROR''
                     then TransactionError (error_msg x payload)
                   else if c = JStr ''CONTRACT_VALIDATE_ERROR''
                     then ValidationError (error_msg x payload)
                   else UnknownError (error_msg x payload) c)"
    by (simp add: unf dict_get_def code_error_def)
  have c: "\<forall>d. map_of payload ''Error'' = None \<and> map_of payload ''code'' = None
               \<and> map_of payload ''result'' = Some (JDict d) \<longrightarrow>
            handle_api_error x payload = handle_api_error x d"
    by (simp add: unf)
  have d: "map_of payload ''Error'' = None \<and> map_of payload ''code'' = None
            \<and> (\<forall>d. map_of payload ''result'' \<noteq> Some (JDict d)) \<longrightarrow>
            handle_api_error x payload = Inr ()"
    by (auto simp: unf split: option.splits json.splits)
  from a b c d show ?thesis by blast
qed

lemma sample_error_msg:
  "error_msg sample_ext [(''code'', JStr ''TAPOS_ERROR''), (''message'', JStr ''6162'')] = JStr ''ab''"
  by code_simp

theorem handle_api_error_classification_witness:
  "map_of [(''code'', JStr ''TAPOS_ERROR''), (''message'', JStr ''6162'')] ''result'' \<noteq> Some (JBool True)
   \<and> handle_api_error sample_ext [(''code'', JStr ''TAPOS_ERROR''), (''message'', JStr ''6162'')]
       = Inl (TaposError (JStr ''ab''))"
  using handle_api_error_classification
    [of "[(''code'', JStr ''TAPOS_ERROR''), (''message'', JStr ''6162'')]" sample_ext]
  by (simp add: sample_error_msg)

text \<open>The claim as stated fails: a payload that is just \<open>result: false\<close> is accepted
  without an exception.\<close>

theorem handle_api_error_result_false_counterexample:
  "handle_api_error sample_ext [(''result'', JBool False)] = Inr ()"
  by (simp add: handle_api_error.simps dict_get_def)

subsection \<open>Signing\<close>

lemma key_listed_absent:
  "\<forall>k \<in> set ks. \<exists>a. getitem k ''address'' = Inr a \<and> a \<noteq> JStr addr
     \<Longrightarrow> key_listed addr ks = Inr False"
  by (induction ks) (auto simp: ebind_def)

lemma sign_no_txid:
  "\<not> truthy (txid tx) \<Longrightarrow> sign x now key tx = (Some (AssertionError ''txID not calculated''), tx)"
  by (simp add: sign_def)

lemma sign_when_expired:
  "truthy (txid tx) \<Longrightarrow> is_expired now tx = Inr True
     \<Longrightarrow> sign x now key tx = (Some (AssertionError ''expired''), tx)"
  by (simp add: sign_def)

text \<open>
  C1, amended. With assertions enabled: for a transaction with a non-empty txid that is
  not expired, whose permission is set to a value with a list \<open>keys\<close>, and a signing
  key whose hex address differs from the \<open>address\<close> of every entry of that list,
  \<open>sign\<close> fails with BadKey, raised with the message, "provided" with the key's
  address and "required" with the permission, and the transaction, its signature list
  included, is the same after the call. With an empty txid \<open>sign\<close> fails with the
  assertion error "txID not calculated" instead, and with a non-empty txid on an
  expired transaction with the assertion error "expired"; the transaction is unchanged
  in both cases.
\<close>

theorem sign_key_not_authorized:
  "(\<not> truthy (txid tx) \<longrightarrow>
      sign x now key tx = (Some (AssertionError ''txID not calculated''), tx))
   \<and> (truthy (txid tx) \<and> is_expired now tx = Inr True \<longrightarrow>
      sign x now key tx = (Some (AssertionError ''expired''), tx))
   \<and> (truthy (txid tx) \<and> is_expired now tx = Inr False \<and> permission tx = Perm p
       \<and> getitem p ''keys'' = Inr (JList ks)
       \<and> (\<forall>k \<in> set ks. \<exists>a. getitem k ''address'' = Inr a \<and> a \<noteq> JStr (hex_address key)) \<longrightarrow>
      sign x now key tx =
        (Some (BadKey ''provided private key is not in the permission list''
                 (''provided '' @ base58check_address key)
                 (''required '' @ format_value x p)), tx))"
proof -
  have main: "sign x now key tx =
        (Some (BadKey ''provided private key is not in the permission list''
                 (''provided '' @ base58check_address key)
                 (''required '' @ format_value x p)), tx)"
    if t: "truthy (txid tx)" and ne: "is_expired now tx = Inr False"
      and p: "permission tx = Perm p" and ks: "getitem p ''keys'' = Inr (JList ks)"
      and absent: "\<forall>k \<in> set ks. \<exists>a. getitem k ''address'' = Inr a \<and> a \<noteq> JStr (hex_address key)"
  proof -
    have "p \<noteq> JNull" using ks by auto
    then have "check_permission x key (Perm p) =
        Inl (BadKey ''provided private key is not in the permission list''
               (''provided '' @ base58check_address key)
               (''required '' @ format_value x p))"
      using ks key_listed_absent [OF absent]
      by (cases p) (simp_all add: check_permission_def ebind_def)
    then show ?thesis
      using t ne p by (simp add: sign_def)
  qed
  from sign_no_txid [of tx x now key] sign_when_expired [of tx now x key] main
  show ?thesis by blast
qed

lemma sample_format_permission:
  "format_value sample_ext sample_permission = ''<value>''"
  by (simp add: format_value_def sample_permission_def sample_ext_def)

theorem sign_key_not_authorized_witness:
  "truthy (txid sample_tx) \<and> is_expired 999 sample_tx = Inr False
   \<and> permission sample_tx = Perm sample_permission
   \<and> getitem sample_permission ''keys''
       = Inr (JList [JDict [(''address'', JStr ''41bb''), (''weight'', JInt 1)]])
   \<and> sign sample_ext 999 sample_key sample_tx =
       (Some (BadKey ''provided private key is not in the permission list''
                ''provided Taa'' ''required <value>''), sample_tx)
   \<and> is_expired 1000 sample_tx = Inr True
   \<and> sign sample_ext 1000 sample_key sample_tx = (Some (AssertionError ''expired''), sample_tx)
   \<and> \<not> truthy (txid (sample_tx\<lparr>txid := JStr []\<rparr>))
   \<and> sign sample_ext 999 sample_key (sample_tx\<lparr>txid := JStr []\<rparr>)
       = (Some (AssertionError ''txID not calculated''), sample_tx\<lparr>txid := JStr []\<rparr>)"
  using sign_key_not_authorized
    [of sample_tx sample_ext 999 sample_key sample_permission
        "[JDict [(''address'', JStr ''41bb''), (''weight'', JInt 1)]]"]
    sign_key_not_authorized
    [of sample_tx sample_ext 1000 sample_key sample_permission "[]"]
    sign_key_not_authorized
    [of "sample_tx\<lparr>txid := JStr []\<rparr>" sample_ext 999 sample_key sample_permission "[]"]
  by (simp add: sample_tx_def sample_permission_def sample_key_def is_expired_def ebind_def
        sample_format_permission [unfolded sample_permission_def])

text \<open>The claim as stated fails on an expired transaction: the expiry assertion
  fails before the permission is looked at.\<close>

theorem sign_key_not_authorized_counterexample:
  "permission sample_tx = Perm sample_permission
   \<and> key_listed (hex_address sample_key)
       [JDict [(''address'', JStr ''41bb''), (''weight'', JInt 1)]] = Inr False
   \<and> sign sample_ext 1000 sample_key sample_tx = (Some (AssertionError ''expired''), sample_tx)"
  by (simp add: sample_tx_def sample_permission_def sample_key_def sign_def is_expired_def
        ebind_def)

text \<open>
  C2, amended. With assertions enabled: \<open>is_expired\<close> is the predicate
  \<open>now \<ge> expiration\<close> on the transaction's expiration field. For every transaction
  with a non-empty txid and every signer, if \<open>now \<ge> expiration\<close> then \<open>sign\<close> fails with
  the assertion error "expired" and leaves the transaction, so its signatures, as it
  was. With an empty txid \<open>sign\<close> fails with the assertion error "txID not calculated"
  instead, whatever the expiration, and leaves the transaction as it was.
\<close>

theorem sign_expired:
  "(\<not> truthy (txid tx) \<longrightarrow>
      sign x now key tx = (Some (AssertionError ''txID not calculated''), tx))
   \<and> (getitem (raw_data tx) ''expiration'' = Inr (JInt e) \<longrightarrow>
        is_expired now tx = Inr (e \<le> now)
        \<and> (truthy (txid tx) \<and> e \<le> now \<longrightarrow>
             sign x now key tx = (Some (AssertionError ''expired''), tx)))"
  by (simp add: is_expired_def sign_def ebind_def)

theorem sign_expired_witness:
  "getitem (raw_data sample_tx) ''expiration'' = Inr (JInt 1000)
   \<and> is_expired 1000 sample_tx = Inr True
   \<and> truthy (txid sample_tx)
   \<and> sign sample_ext 1000 sample_key sample_tx = (Some (AssertionError ''expired''), sample_tx)
   \<and> \<not> truthy (txid (sample_tx\<lparr>txid := JStr []\<rparr>))
   \<and> sign sample_ext 1000 sample_key (sample_tx\<lparr>txid := JStr []\<rparr>)
       = (Some (AssertionError ''txID not calculated''), sample_tx\<lparr>txid := JStr []\<rparr>)"
  using sign_expired [of sample_tx sample_ext 1000 sample_key 1000]
    sign_expired [of "sample_tx\<lparr>txid := JStr []\<rparr>" sample_ext 1000 sample_key 1000]
  by (simp add: sample_tx_def)

text \<open>The claim as stated fails on an expired transaction without a txid: the error
  is that of the txid assertion.\<close>

theorem sign_expired_counterexample:
  "is_expired 1000 (sample_tx\<lparr>txid := JStr []\<rparr>) = Inr True
   \<and> sign sample_ext 1000 sample_key (sample_tx\<lparr>txid := JStr []\<rparr>)
       = (Some (AssertionError ''txID not calculated''), sample_tx\<lparr>txid := JStr []\<rparr>)"
  by (simp add: sample_tx_def sign_def is_expired_def ebind_def)

subsection \<open>Serialisation round trip\<close>




subsection \<open>The result of a reverted call\<close>

lemma result_of_receipt:
  "wait clock get_info timeout interval = Some (Inr receipt, k) \<Longrightarrow>
     result x (Some po) clock get_info timeout interval = Some (receipt_result x po receipt)"
  by (simp add: result_def)

lemma receipt_result_revert:
  "dict_get receipt ''result'' JNull = JStr ''FAILED'' \<Longrightarrow>
   ebind (getitem (JDict receipt) ''receipt'') (\<lambda>r. getitem r ''result'') = Inr (JStr ''REVERT'') \<Longrightarrow>
     receipt_result x po receipt =
       (Inl (TvmError (fst (revert_reason x receipt (dict_get receipt ''resMessage'' (JStr ''FAILED''))))),
        snd (revert_reason x receipt (dict_get receipt ''resMessage'' (JStr ''FAILED''))))"
  by (simp add: receipt_result_def Let_def split: prod.splits)

text \<open>
  C6. Let \<open>result\<close> be called on a contract call whose receipt arrives with
  \<open>result == "FAILED"\<close> and \<open>receipt.result == "REVERT"\<close>, and let the message be
  \<open>resMessage\<close>, or \<open>"FAILED"\<close> without one. When the first entry of
  \<open>contractResult\<close> has length at most 72, nothing is handed to the string decoder
  and the TVM error is raised with the message unchanged. Whenever something is handed
  to the decoder, the entry is strictly longer than \<open>(4 + 32) * 2\<close>. An exception
  inside the attempt, from reading the entry, from \<open>bytes.fromhex\<close> or from the
  decoder, is swallowed: the TVM error is raised with the message unchanged.
\<close>

theorem result_revert_short_entry:
  assumes "wait clock get_info timeout interval = Some (Inr receipt, k)"
    and "dict_get receipt ''result'' JNull = JStr ''FAILED''"
    and "ebind (getitem (JDict receipt) ''receipt'') (\<lambda>r. getitem r ''result'') = Inr (JStr ''REVERT'')"
  shows "(getitem0 (dict_get receipt ''contractResult'' (JList [])) = Inr r0
            \<and> py_len r0 = Inr n \<and> n \<le> 72 \<longrightarrow>
          result x (Some po) clock get_info timeout interval
            = Some (Inl (TvmError (dict_get receipt ''resMessage'' (JStr ''FAILED''))), []))
       \<and> (result x (Some po) clock get_info timeout interval = Some (out, attempts)
            \<and> attempts \<noteq> [] \<longrightarrow>
          (\<exists>r0 n bs. getitem0 (dict_get receipt ''contractResult'' (JList [])) = Inr r0
             \<and> py_len r0 = Inr n \<and> (4 + 32) * 2 < n
             \<and> py_fromhex r0 = Inr bs \<and> attempts = [drop (4 + 32) bs]))
       \<and> (getitem0 (dict_get receipt ''contractResult'' (JList [])) = Inl e
            \<or> (getitem0 (dict_get receipt ''contractResult'' (JList [])) = Inr r0
                \<and> (py_len r0 = Inl e \<or> py_fromhex r0 = Inl e
                    \<or> (py_fromhex r0 = Inr bs \<and> abi_decode_string x (drop (4 + 32) bs) = Inl e))) \<longrightarrow>
          (\<exists>attempts. result x (Some po) clock get_info timeout interval
            = Some (Inl (TvmError (dict_get receipt ''resMessage'' (JStr ''FAILED''))), attempts)))"
proof -
  let ?msg = "dict_get receipt ''resMessage'' (JStr ''FAILED'')"
  let ?res = "dict_get receipt ''contractResult'' (JList [])"
  have res: "result x (Some po) clock get_info timeout interval =
      Some (Inl (TvmError (fst (revert_reason x receipt ?msg))), snd (revert_reason x receipt ?msg))"
    by (simp add: result_of_receipt [OF assms(1)] receipt_result_revert [OF assms(2,3)])
  have a: "revert_reason x receipt ?msg = (?msg, [])"
    if "getitem0 ?res = Inr r0" "py_len r0 = Inr n" "n \<le> 72"
    using that by (simp add: revert_reason_def Let_def ebind_def)
  have b: "\<exists>r0 n bs. getitem0 ?res = Inr r0 \<and> py_len r0 = Inr n \<and> (4 + 32) * 2 < n
             \<and> py_fromhex r0 = Inr bs \<and> snd (revert_reason x receipt ?msg) = [drop (4 + 32) bs]"
    if "snd (revert_reason x receipt ?msg) \<noteq> []"
    using that
    by (auto simp: revert_reason_def Let_def ebind_def split: if_splits sum.splits prod.splits)
  have c: "fst (revert_reason x receipt ?msg) = ?msg"
    if "getitem0 ?res = Inl e
        \<or> (getitem0 ?res = Inr r0
            \<and> (py_len r0 = Inl e \<or> py_fromhex r0 = Inl e
                \<or> (py_fromhex r0 = Inr bs \<and> abi_decode_string x (drop (4 + 32) bs) = Inl e)))"
    using that
    by (auto simp: revert_reason_def Let_def ebind_def split: if_splits sum.splits prod.splits)
  from a have a': "getitem0 ?res = Inr r0 \<and> py_len r0 = Inr n \<and> n \<le> 72 \<longrightarrow>
      result x (Some po) clock get_info timeout interval = Some (Inl (TvmError ?msg), [])"
    by (simp add: res)
  from b have b': "result x (Some po) clock get_info timeout interval = Some (out, attempts)
        \<and> attempts \<noteq> [] \<longrightarrow>
      (\<exists>r0 n bs. getitem0 ?res = Inr r0 \<and> py_len r0 = Inr n \<and> (4 + 32) * 2 < n
         \<and> py_fromhex r0 = Inr bs \<and> attempts = [drop (4 + 32) bs])"
    by (auto simp: res)
  from c have c': "getitem0 ?res = Inl e
        \<or> (getitem0 ?res = Inr r0
            \<and> (py_len r0 = Inl e \<or> py_fromhex r0 = Inl e
                \<or> (py_fromhex r0 = Inr bs \<and> abi_decode_string x (drop (4 + 32) bs) = Inl e))) \<longrightarrow>
      (\<exists>attempts. result x (Some po) clock get_info timeout interval
         = Some (Inl (TvmError ?msg), attempts))"
    by (simp add: res)
  from a' b' c' show ?thesis by blast
qed

lemma sample_wait:
  "wait sample_ticks (\<lambda>i. Inr r) 30 interval = Some (Inr r, 1)"
  unfolding wait_def by (subst wait_loop.simps) (simp add: sample_ticks_def)

lemma sample_long_bytes:
  "fromhex sample_long = Inr ([8, 195, 121, 160] @ replicate 32 0 @ [111])"
  by code_simp

theorem result_revert_short_entry_witness:
  "wait sample_ticks (\<lambda>i. Inr (sample_receipt ''08c379a0'')) 30 1.6
     = Some (Inr (sample_receipt ''08c379a0''), 1)
   \<and> dict_get (sample_receipt ''08c379a0'') ''result'' JNull = JStr ''FAILED''
   \<and> getitem0 (dict_get (sample_receipt ''08c379a0'') ''contractResult'' (JList []))
       = Inr (JStr ''08c379a0'')
   \<and> py_len (JStr ''08c379a0'') = Inr 8
   \<and> result sample_ext (Some Inr) sample_ticks (\<lambda>i. Inr (sample_receipt ''08c379a0'')) 30 1.6
       = Some (Inl (TvmError (JStr ''boom'')), [])
   \<and> py_fromhex (JStr sample_long) = Inr ([8, 195, 121, 160] @ replicate 32 0 @ [111])
   \<and> abi_decode_string (sample_ext\<lparr>abi_decode_string := \<lambda>bs. Inl LibraryError\<rparr>) [111]
       = Inl LibraryError
   \<and> (\<exists>attempts.
         result (sample_ext\<lparr>abi_decode_string := \<lambda>bs. Inl LibraryError\<rparr>) (Some Inr)
           sample_ticks (\<lambda>i. Inr (sample_receipt sample_long)) 30 1.6
         = Some (Inl (TvmError (JStr ''boom'')), attempts))"
  using result_revert_short_entry
    [where clock = sample_ticks and get_info = "\<lambda>i. Inr (sample_receipt ''08c379a0'')"
       and timeout = 30 and interval = "1.6" and receipt = "sample_receipt ''08c379a0''"
       and k = 1 and ?r0.0 = "JStr ''08c379a0''" and n = 8 and x = sample_ext and po = Inr,
     OF sample_wait]
    result_revert_short_entry
    [where clock = sample_ticks and get_info = "\<lambda>i. Inr (sample_receipt sample_long)"
       and timeout = 30 and interval = "1.6" and receipt = "sample_receipt sample_long"
       and k = 1 and ?r0.0 = "JStr sample_long"
       and bs = "[8, 195, 121, 160] @ replicate 32 0 @ [111]" and e = LibraryError
       and x = "sample_ext\<lparr>abi_decode_string := \<lambda>bs. Inl LibraryError\<rparr>" and po = Inr,
     OF sample_wait]
  by (simp add: sample_wait sample_receipt_def dict_get_def ebind_def sample_long_bytes)

subsection \<open>Decoding token transfers\<close>

lemma count_usdt_failed:
  "parse_usdt_transfer x tx block_num block_timestamp = Inr None \<Longrightarrow>
   map_of tx ''txID'' = Some tid \<Longrightarrow>
     count_usdt x address block_num block_timestamp tx res =
       Inr (res\<lparr>total_transactions := total_transactions res + 1,
                failed_parse := failed_parse res + 1,
                failed_txids := failed_txids res @ [tid]\<rparr>)"
  by (simp add: count_usdt_def Let_def ebind_def)


lemma sample_call_candidate:
  "usdt_candidate scan_ext (sample_call tid data) = Inr True"
  by (simp add: usdt_candidate_def contract_list_def first_contract_def sample_call_def sample_contract_def sample_value_def
        dict_get_def ebind_def scan_ext_def USDT_CONTRACT_ADDRESS_def)




subsection \<open>The counters of a scan\<close>

lemma scan_trx_counters:
  "scan_trx x address block_num block_timestamp tx res = Inr res' \<Longrightarrow>
     total_transactions res' = total_transactions res
     \<and> successful_parse res' = successful_parse res
     \<and> failed_parse res' = failed_parse res
     \<and> failed_txids res' = failed_txids res"
  unfolding scan_trx_def ebind_def
  by (auto split: sum.splits if_splits)

lemma count_usdt_counters:
  "count_usdt x address block_num block_timestamp tx res = Inr res' \<Longrightarrow>
     total_transactions res' = total_transactions res + 1
     \<and> ((successful_parse res' = successful_parse res + 1 \<and> failed_parse res' = failed_parse res
          \<and> failed_txids res' = failed_txids res)
        \<or> (successful_parse res' = successful_parse res \<and> failed_parse res' = failed_parse res + 1
            \<and> (\<exists>tid. failed_txids res' = failed_txids res @ [tid])))"
  unfolding count_usdt_def ebind_def Let_def
  by (auto split: sum.splits if_splits option.splits)

lemma scan_usdt_counters:
  "scan_usdt x address block_num block_timestamp tx res = Inr res' \<Longrightarrow>
     (usdt_candidate x tx = Inr True
        \<and> count_usdt x address block_num block_timestamp tx res = Inr res')
     \<or> (usdt_candidate x tx = Inr False \<and> res' = res)"
  unfolding scan_usdt_def ebind_def
  by (auto split: sum.splits if_splits)

lemma scan_tx_counters:
  assumes "scan_tx x address block_num block_timestamp tx res = Inr res'"
  shows "total_transactions res' = total_transactions res + candidate_count x [tx]
     \<and> successful_parse res' + failed_parse res'
         = successful_parse res + failed_parse res + candidate_count x [tx]
     \<and> length (failed_txids res') - failed_parse res'
         = length (failed_txids res) - failed_parse res
     \<and> failed_parse res' - length (failed_txids res')
         = failed_parse res - length (failed_txids res)"
proof -
  from assms obtain d res1 where d: "tx = JDict d"
    and t: "scan_trx x address block_num block_timestamp d res = Inr res1"
    and u: "scan_usdt x address block_num block_timestamp d res1 = Inr res'"
    by (cases tx) (auto simp: scan_tx_def ebind_def split: sum.splits)
  note r1 = scan_trx_counters [OF t]
  from scan_usdt_counters [OF u] show ?thesis
  proof
    assume c: "usdt_candidate x d = Inr True
        \<and> count_usdt x address block_num block_timestamp d res1 = Inr res'"
    then have "count_usdt x address block_num block_timestamp d res1 = Inr res'" ..
    from count_usdt_counters [OF this] c show ?thesis
      by (auto simp: candidate_count_def d r1)
  next
    assume "usdt_candidate x d = Inr False \<and> res' = res1"
    then show ?thesis by (simp add: candidate_count_def d r1)
  qed
qed

lemma scan_txs_counters:
  "scan_txs x address block_num block_timestamp txs res = Inr res' \<Longrightarrow>
     total_transactions res' = total_transactions res + candidate_count x txs
     \<and> successful_parse res' + failed_parse res'
         = successful_parse res + failed_parse res + candidate_count x txs
     \<and> length (failed_txids res') - failed_parse res'
         = length (failed_txids res) - failed_parse res
     \<and> failed_parse res' - length (failed_txids res')
         = failed_parse res - length (failed_txids res)"
proof (induction txs arbitrary: res)
  case Nil
  then show ?case by (simp add: candidate_count_def)
next
  case (Cons tx txs)
  from Cons.prems obtain res1 where s: "scan_tx x address block_num block_timestamp tx res = Inr res1"
    and r: "scan_txs x address block_num block_timestamp txs res1 = Inr res'"
    by (auto simp: ebind_def split: sum.splits)
  have cc: "candidate_count x (tx # txs) = candidate_count x [tx] + candidate_count x txs"
    by (simp add: candidate_count_def)
  from scan_tx_counters [OF s] Cons.IH [OF r] show ?case
    by (simp add: cc)
qed

lemma scan_block_counters:
  assumes "scan_block x get_block address block_num res = Inr res'"
  shows "successful_parse res' + failed_parse res' + total_transactions res
         = successful_parse res + failed_parse res + total_transactions res'
     \<and> length (failed_txids res') - failed_parse res'
         = length (failed_txids res) - failed_parse res
     \<and> failed_parse res' - length (failed_txids res')
         = failed_parse res - length (failed_txids res)"
proof -
  from assms obtain b where
    "res' = res\<lparr>blocks := blocks res @ [b]\<rparr>
     \<or> (\<exists>ts items. scan_txs x address block_num ts items (res\<lparr>blocks := blocks res @ [b]\<rparr>) = Inr res')"
    unfolding scan_block_def ebind_def Let_def
    by (auto split: sum.splits if_splits)
  then show ?thesis
  proof
    assume "res' = res\<lparr>blocks := blocks res @ [b]\<rparr>"
    then show ?thesis by simp
  next
    assume "\<exists>ts items. scan_txs x address block_num ts items (res\<lparr>blocks := blocks res @ [b]\<rparr>) = Inr res'"
    then obtain ts items
      where "scan_txs x address block_num ts items (res\<lparr>blocks := blocks res @ [b]\<rparr>) = Inr res'"
      by blast
    from scan_txs_counters [OF this] show ?thesis by simp
  qed
qed

lemma scan_blocks_counters:
  "scan_blocks x get_block address ns res = Inr res' \<Longrightarrow>
     successful_parse res' + failed_parse res' + total_transactions res
         = successful_parse res + failed_parse res + total_transactions res'
     \<and> length (failed_txids res') - failed_parse res'
         = length (failed_txids res) - failed_parse res
     \<and> failed_parse res' - length (failed_txids res')
         = failed_parse res - length (failed_txids res)"
proof (induction ns arbitrary: res)
  case Nil
  then show ?case by simp
next
  case (Cons n ns)
  from Cons.prems obtain res1 where s: "scan_block x get_block address n res = Inr res1"
    and r: "scan_blocks x get_block address ns res1 = Inr res'"
    by (auto simp: ebind_def split: sum.splits)
  from scan_block_counters [OF s] Cons.IH [OF r] show ?case
    by simp
qed

text \<open>
  C8. In the loop over the transactions of a block, a token-transfer candidate adds
  one to \<open>total_transactions\<close> and one to exactly one of \<open>successful_parse\<close> and
  \<open>failed_parse\<close>, with one txid more in \<open>failed_txids\<close> in the second case; other
  transactions leave the counters as they are, so the loop adds the number of
  candidates to \<open>total_transactions\<close>. In the result of every scan,
  \<open>successful_parse + failed_parse\<close> equals \<open>total_transactions\<close> and the length of
  \<open>failed_txids\<close> equals \<open>failed_parse\<close>.
\<close>

theorem scan_counters:
  "(usdt_candidate x tx = Inr True
      \<and> scan_usdt x address block_num block_timestamp tx r = Inr r' \<longrightarrow>
    total_transactions r' = total_transactions r + 1
    \<and> ((successful_parse r' = successful_parse r + 1 \<and> failed_parse r' = failed_parse r
         \<and> failed_txids r' = failed_txids r)
       \<or> (successful_parse r' = successful_parse r \<and> failed_parse r' = failed_parse r + 1
           \<and> (\<exists>tid. failed_txids r' = failed_txids r @ [tid]))))
   \<and> (scan_txs x address block_num block_timestamp txs r = Inr r' \<longrightarrow>
        total_transactions r' = total_transactions r + candidate_count x txs)
   \<and> (scan_block_transfers x get_block latest start_block end_block address = Inr res \<longrightarrow>
        successful_parse res + failed_parse res = total_transactions res
        \<and> length (failed_txids res) = failed_parse res)"
proof -
  have a: "total_transactions r' = total_transactions r + 1
    \<and> ((successful_parse r' = successful_parse r + 1 \<and> failed_parse r' = failed_parse r
         \<and> failed_txids r' = failed_txids r)
       \<or> (successful_parse r' = successful_parse r \<and> failed_parse r' = failed_parse r + 1
           \<and> (\<exists>tid. failed_txids r' = failed_txids r @ [tid])))"
    if "usdt_candidate x tx = Inr True"
      and "scan_usdt x address block_num block_timestamp tx r = Inr r'"
  proof -
    from scan_usdt_counters [OF that(2)] that(1)
    have "count_usdt x address block_num block_timestamp tx r = Inr r'" by auto
    from count_usdt_counters [OF this] show ?thesis .
  qed
  have b: "total_transactions r' = total_transactions r + candidate_count x txs"
    if "scan_txs x address block_num block_timestamp txs r = Inr r'"
    using scan_txs_counters [OF that] by simp
  have c: "successful_parse res + failed_parse res = total_transactions res
        \<and> length (failed_txids res) = failed_parse res"
    if "scan_block_transfers x get_block latest start_block end_block address = Inr res"
  proof -
    from that obtain ns where "scan_blocks x get_block address ns empty_result = Inr res"
      by (auto simp: scan_block_transfers_def ebind_def split: sum.splits)
    from scan_blocks_counters [OF this] show ?thesis
      by (simp add: empty_result_def)
  qed
  from a b c show ?thesis by blast
qed

lemma sample_scan:
  "scan_block_transfers scan_ext sample_get_block (Inr 8) 6 (Some 8) None = Inr sample_scan_result"
  by code_simp

lemma sample_scan_txs:
  "scan_txs scan_ext None 7 (JInt 1)
     [JDict (sample_call ''t1'' (JStr transfer_data)), JDict (sample_call ''t2'' (JStr short_data))]
     empty_result
   = Inr (empty_result\<lparr>transfers_usdt := transfers_usdt sample_scan_result,
            total_transactions := 2, failed_parse := 1, successful_parse := 1,
            failed_txids := [JStr ''t2'']\<rparr>)"
  by code_simp

lemma sample_scan_usdt:
  "scan_usdt scan_ext None 7 (JInt 1) (sample_call ''t2'' (JStr short_data)) empty_result
   = Inr (empty_result\<lparr>total_transactions := 1, failed_parse := 1, failed_txids := [JStr ''t2'']\<rparr>)"
  by code_simp

lemma sample_candidate_count:
  "candidate_count scan_ext
     [JDict (sample_call ''t1'' (JStr transfer_data)), JDict (sample_call ''t2'' (JStr short_data))] = 2"
  by code_simp

theorem scan_counters_witness:
  "usdt_candidate scan_ext (sample_call ''t2'' (JStr short_data)) = Inr True
   \<and> scan_usdt scan_ext None 7 (JInt 1) (sample_call ''t2'' (JStr short_data)) empty_result
       = Inr (empty_result\<lparr>total_transactions := 1, failed_parse := 1,
                            failed_txids := [JStr ''t2'']\<rparr>)
   \<and> scan_txs scan_ext None 7 (JInt 1)
        [JDict (sample_call ''t1'' (JStr transfer_data)),
         JDict (sample_call ''t2'' (JStr short_data))] empty_result
       = Inr (empty_result\<lparr>transfers_usdt := transfers_usdt sample_scan_result,
                total_transactions := 2, failed_parse := 1, successful_parse := 1,
                failed_txids := [JStr ''t2'']\<rparr>)
   \<and> candidate_count scan_ext
        [JDict (sample_call ''t1'' (JStr transfer_data)),
         JDict (sample_call ''t2'' (JStr short_data))] = 2
   \<and> scan_block_transfers scan_ext sample_get_block (Inr 8) 6 (Some 8) None
       = Inr sample_scan_result
   \<and> successful_parse sample_scan_result + failed_parse sample_scan_result
       = total_transactions sample_scan_result
   \<and> length (failed_txids sample_scan_result) = failed_parse sample_scan_result
   \<and> total_transactions sample_scan_result = 3"
  using scan_counters
    [where x = scan_ext and tx = "sample_call ''t2'' (JStr short_data)" and address = None
       and block_num = 7 and block_timestamp = "JInt 1" and r = empty_result
       and r' = "empty_result\<lparr>total_transactions := 1, failed_parse := 1,
                   failed_txids := [JStr ''t2'']\<rparr>"
       and txs = "[]" and get_block = sample_get_block and latest = "Inr 8"
       and start_block = 6 and end_block = "Some 8" and res = sample_scan_result]
    scan_counters
    [where x = scan_ext and tx = "sample_call ''t2'' (JStr short_data)" and address = None
       and block_num = 7 and block_timestamp = "JInt 1" and r = empty_result
       and r' = "empty_result\<lparr>transfers_usdt := transfers_usdt sample_scan_result,
                   total_transactions := 2, failed_parse := 1, successful_parse := 1,
                   failed_txids := [JStr ''t2'']\<rparr>"
       and txs = "[JDict (sample_call ''t1'' (JStr transfer_data)),
                   JDict (sample_call ''t2'' (JStr short_data))]"
       and get_block = sample_get_block and latest = "Inr 8"
       and start_block = 6 and end_block = "Some 8" and res = sample_scan_result]
    sample_scan sample_scan_usdt sample_scan_txs sample_candidate_count
    sample_call_candidate [of "''t2''" "JStr short_data"]
  by (simp add: sample_scan_result_def)

subsection \<open>The fields of a token transfer\<close>

text \<open>
  C7, amended. Take a transaction whose first contract has a \<open>parameter.value\<close> with
  call data \<open>d\<close>, a string. When \<open>d\<close> starts with \<open>a9059cbb\<close> and the address of
  \<open>'41' + d[32:72]\<close>, the integer \<open>int(d[72:], 16)\<close>, its quotient by \<open>10 ** 6\<close> and
  the address of \<open>owner_address\<close> are all obtained without an exception, and the
  transaction has a \<open>txID\<close>, the parser returns the transfer with these as recipient,
  amount and sender, and the method \<open>transfer\<close>; when one of them raises, it returns
  \<open>None\<close>. When \<open>d\<close> starts with \<open>23b872dd\<close>, the same holds with the owner from
  \<open>d[32:72]\<close>, the recipient from \<open>d[72:112]\<close>, the amount from \<open>d[112:]\<close> and the
  method \<open>transferFrom\<close>. With any other start of \<open>d\<close>, and whenever the transaction
  has no \<open>txID\<close>, the parser returns \<open>None\<close>. For a candidate of the scan with a
  \<open>txID\<close>, the result \<open>None\<close> adds one to \<open>failed_parse\<close> and the txid to
  \<open>failed_txids\<close>.
\<close>

theorem parse_usdt_transfer_fields:
  assumes "first_contract tx = Inr contract"
    and "ebind (getitem contract ''parameter'') (\<lambda>p. getitem p ''value'') = Inr val"
    and "py_get val ''data'' (JStr []) = Inr (JStr d)"
  shows
    "(startswith d ''a9059cbb''
        \<and> to_base58check_address x (JStr (''41'' @ take 40 (drop 32 d))) = Inr to_addr
        \<and> int16 x (drop 72 d) = Inr n \<and> truediv x n (10 ^ 6) = Inr amount
        \<and> getitem val ''owner_address'' = Inr owner
        \<and> to_base58check_address x owner = Inr from_addr
        \<and> map_of tx ''txID'' = Some tid \<longrightarrow>
      parse_usdt_transfer x tx block_num block_timestamp =
        Inr (Some \<lparr> t_block_number = block_num, t_timestamp = block_timestamp, t_txid = tid,
                    t_from = from_addr, t_to = to_addr, t_amount = amount,
                    t_method = Some ''transfer'', t_resource = None \<rparr>))
     \<and> (startswith d ''a9059cbb''
          \<and> (to_base58check_address x (JStr (''41'' @ take 40 (drop 32 d))) = Inl e
              \<or> int16 x (drop 72 d) = Inl e
              \<or> (int16 x (drop 72 d) = Inr n \<and> truediv x n (10 ^ 6) = Inl e)
              \<or> getitem val ''owner_address'' = Inl e
              \<or> (getitem val ''owner_address'' = Inr owner
                  \<and> to_base58check_address x owner = Inl e)) \<longrightarrow>
        parse_usdt_transfer x tx block_num block_timestamp = Inr None)
     \<and> (startswith d ''23b872dd''
          \<and> to_base58check_address x (JStr (''41'' @ take 40 (drop 32 d))) = Inr from_addr
          \<and> to_base58check_address x (JStr (''41'' @ take 40 (drop 72 d))) = Inr to_addr
          \<and> int16 x (drop 112 d) = Inr n \<and> truediv x n (10 ^ 6) = Inr amount
          \<and> map_of tx ''txID'' = Some tid \<longrightarrow>
        parse_usdt_transfer x tx block_num block_timestamp =
          Inr (Some \<lparr> t_block_number = block_num, t_timestamp = block_timestamp, t_txid = tid,
                      t_from = from_addr, t_to = to_addr, t_amount = amount,
                      t_method = Some ''transferFrom'', t_resource = None \<rparr>))
     \<and> (startswith d ''23b872dd''
          \<and> (to_base58check_address x (JStr (''41'' @ take 40 (drop 32 d))) = Inl e
              \<or> to_base58check_address x (JStr (''41'' @ take 40 (drop 72 d))) = Inl e
              \<or> int16 x (drop 112 d) = Inl e
              \<or> (int16 x (drop 112 d) = Inr n \<and> truediv x n (10 ^ 6) = Inl e)) \<longrightarrow>
        parse_usdt_transfer x tx block_num block_timestamp = Inr None)
     \<and> (\<not> startswith d ''a9059cbb'' \<and> \<not> startswith d ''23b872dd'' \<longrightarrow>
        parse_usdt_transfer x tx block_num block_timestamp = Inr None)
     \<and> (map_of tx ''txID'' = None \<longrightarrow>
        parse_usdt_transfer x tx block_num block_timestamp = Inr None)
     \<and> (parse_usdt_transfer x tx block_num block_timestamp = Inr None
          \<and> map_of tx ''txID'' = Some tid \<longrightarrow>
        count_usdt x address block_num block_timestamp tx res =
          Inr (res\<lparr>total_transactions := total_transactions res + 1,
                   failed_parse := failed_parse res + 1,
                   failed_txids := failed_txids res @ [tid]\<rparr>))"
proof -
  let ?P = "parse_usdt_transfer x tx block_num block_timestamp"
  let ?B = "parse_usdt_transfer_body x tx block_num block_timestamp"
  have nota: "startswith d ''23b872dd'' \<Longrightarrow> \<not> startswith d ''a9059cbb''"
    by (auto simp: startswith_def)
  have body: "?B =
     (if startswith d ''a9059cbb''
      then (case ebind (to_base58check_address x (JStr (''41'' @ take 40 (drop 32 d)))) (\<lambda>to_addr.
                 ebind (ebind (int16 x (drop 72 d)) (\<lambda>n. truediv x n (10 ^ 6))) (\<lambda>amount.
                 ebind (ebind (getitem val ''owner_address'') (to_base58check_address x)) (\<lambda>from_addr.
                 Inr (from_addr, to_addr, amount)))) of
              Inl e \<Rightarrow> Inr None
            | Inr (from_addr, to_addr, amount) \<Rightarrow>
                ebind (getitem (JDict tx) ''txID'') (\<lambda>tid.
                  Inr (Some \<lparr> t_block_number = block_num, t_timestamp = block_timestamp,
                              t_txid = tid, t_from = from_addr, t_to = to_addr,
                              t_amount = amount, t_method = Some ''transfer'',
                              t_resource = None \<rparr>)))
      else if startswith d ''23b872dd''
      then (case ebind (to_base58check_address x (JStr (''41'' @ take 40 (drop 32 d)))) (\<lambda>from_addr.
                 ebind (to_base58check_address x (JStr (''41'' @ take 40 (drop 72 d)))) (\<lambda>to_addr.
                 ebind (ebind (int16 x (drop 112 d)) (\<lambda>n. truediv x n (10 ^ 6))) (\<lambda>amount.
                 Inr (from_addr, to_addr, amount)))) of
              Inl e \<Rightarrow> Inr None
            | Inr (from_addr, to_addr, amount) \<Rightarrow>
                ebind (getitem (JDict tx) ''txID'') (\<lambda>tid.
                  Inr (Some \<lparr> t_block_number = block_num, t_timestamp = block_timestamp,
                              t_txid = tid, t_from = from_addr, t_to = to_addr,
                              t_amount = amount, t_method = Some ''transferFrom'',
                              t_resource = None \<rparr>)))
      else Inr None)"
    using assms by (simp add: parse_usdt_transfer_body_def first_contract_def ebind_def)
  have c1: "?P = Inr (Some \<lparr> t_block_number = block_num, t_timestamp = block_timestamp, t_txid = tid,
                    t_from = from_addr, t_to = to_addr, t_amount = amount,
                    t_method = Some ''transfer'', t_resource = None \<rparr>)"
    if "startswith d ''a9059cbb''"
      "to_base58check_address x (JStr (''41'' @ take 40 (drop 32 d))) = Inr to_addr"
      "int16 x (drop 72 d) = Inr n" "truediv x n (10 ^ 6) = Inr amount"
      "getitem val ''owner_address'' = Inr owner"
      "to_base58check_address x owner = Inr from_addr"
      "map_of tx ''txID'' = Some tid"
    using that by (simp add: parse_usdt_transfer_def body ebind_def)
  have c2: "?P = Inr None"
    if "startswith d ''a9059cbb''"
      "to_base58check_address x (JStr (''41'' @ take 40 (drop 32 d))) = Inl e
              \<or> int16 x (drop 72 d) = Inl e
              \<or> (int16 x (drop 72 d) = Inr n \<and> truediv x n (10 ^ 6) = Inl e)
              \<or> getitem val ''owner_address'' = Inl e
              \<or> (getitem val ''owner_address'' = Inr owner
                  \<and> to_base58check_address x owner = Inl e)"
    using that by (auto simp: parse_usdt_transfer_def body ebind_def split: sum.splits)
  have c3: "?P = Inr (Some \<lparr> t_block_number = block_num, t_timestamp = block_timestamp, t_txid = tid,
                      t_from = from_addr, t_to = to_addr, t_amount = amount,
                      t_method = Some ''transferFrom'', t_resource = None \<rparr>)"
    if "startswith d ''23b872dd''"
      "to_base58check_address x (JStr (''41'' @ take 40 (drop 32 d))) = Inr from_addr"
      "to_base58check_address x (JStr (''41'' @ take 40 (drop 72 d))) = Inr to_addr"
      "int16 x (drop 112 d) = Inr n" "truediv x n (10 ^ 6) = Inr amount"
      "map_of tx ''txID'' = Some tid"
    using that nota by (simp add: parse_usdt_transfer_def body ebind_def)
  have c4: "?P = Inr None"
    if "startswith d ''23b872dd''"
      "to_base58check_address x (JStr (''41'' @ take 40 (drop 32 d))) = Inl e
              \<or> to_base58check_address x (JStr (''41'' @ take 40 (drop 72 d))) = Inl e
              \<or> int16 x (drop 112 d) = Inl e
              \<or> (int16 x (drop 112 d) = Inr n \<and> truediv x n (10 ^ 6) = Inl e)"
    using that nota by (auto simp: parse_usdt_transfer_def body ebind_def split: sum.splits)
  have c5: "?P = Inr None" if "\<not> startswith d ''a9059cbb''" "\<not> startswith d ''23b872dd''"
    using that by (simp add: parse_usdt_transfer_def body)
  have c6: "?P = Inr None" if "map_of tx ''txID'' = None"
    using that by (auto simp: parse_usdt_transfer_def body ebind_def split: sum.splits)
  have c7: "count_usdt x address block_num block_timestamp tx res =
          Inr (res\<lparr>total_transactions := total_transactions res + 1,
                   failed_parse := failed_parse res + 1,
                   failed_txids := failed_txids res @ [tid]\<rparr>)"
    if "?P = Inr None" "map_of tx ''txID'' = Some tid"
    using count_usdt_failed [OF that] .
  from c1 c2 c3 c4 c5 c6 c7 show ?thesis by blast
qed

lemma sample_call_contract:
  "first_contract (sample_call tid data) = Inr (sample_contract data)"
  by (simp add: first_contract_def sample_call_def ebind_def)

lemma sample_call_txid:
  "map_of (sample_call tid data) ''txID'' = Some (JStr tid)"
  by (simp add: sample_call_def)

lemma sample_contract_value:
  "ebind (getitem (sample_contract data) ''parameter'') (\<lambda>p. getitem p ''value'')
     = Inr (sample_value data)"
  by (simp add: sample_contract_def ebind_def)

lemma sample_value_data:
  "py_get (sample_value data) ''data'' (JStr []) = Inr data"
  by (simp add: sample_value_def dict_get_def)

lemma sample_value_owner:
  "getitem (sample_value data) ''owner_address'' = Inr (JStr (''41'' @ replicate 40 CHR ''a''))"
  by (simp add: sample_value_def)

lemma sample_transfer_fields:
  "startswith transfer_data ''a9059cbb''
   \<and> to_base58check_address scan_ext (JStr (''41'' @ take 40 (drop 32 transfer_data)))
       = Inr (CHR ''T'' # ''41'' @ replicate 40 CHR ''b'')
   \<and> int16 scan_ext (drop 72 transfer_data) = Inr 1000000
   \<and> truediv scan_ext 1000000 (10 ^ 6) = Inr 1
   \<and> to_base58check_address scan_ext (JStr (''41'' @ replicate 40 CHR ''a''))
       = Inr (CHR ''T'' # ''41'' @ replicate 40 CHR ''a'')"
  by code_simp

lemma sample_transfer_from_fields:
  "startswith transfer_from_data ''23b872dd''
   \<and> to_base58check_address scan_ext (JStr (''41'' @ take 40 (drop 32 transfer_from_data)))
       = Inr (CHR ''T'' # ''41'' @ replicate 40 CHR ''a'')
   \<and> to_base58check_address scan_ext (JStr (''41'' @ take 40 (drop 72 transfer_from_data)))
       = Inr (CHR ''T'' # ''41'' @ replicate 40 CHR ''b'')
   \<and> int16 scan_ext (drop 112 transfer_from_data) = Inr 1000000"
  by code_simp

lemma sample_approve_selector:
  "\<not> startswith approve_data ''a9059cbb'' \<and> \<not> startswith approve_data ''23b872dd''"
  by code_simp

theorem parse_usdt_transfer_fields_witness:
  "first_contract (sample_call ''t1'' (JStr transfer_data)) = Inr (sample_contract (JStr transfer_data))
   \<and> startswith transfer_data ''a9059cbb''
   \<and> int16 scan_ext (drop 72 transfer_data) = Inr 1000000
   \<and> parse_usdt_transfer scan_ext (sample_call ''t1'' (JStr transfer_data)) 7 (JInt 1) =
       Inr (Some \<lparr> t_block_number = 7, t_timestamp = JInt 1, t_txid = JStr ''t1'',
                   t_from = CHR ''T'' # ''41'' @ replicate 40 CHR ''a'',
                   t_to = CHR ''T'' # ''41'' @ replicate 40 CHR ''b'', t_amount = 1,
                   t_method = Some ''transfer'', t_resource = None \<rparr>)
   \<and> startswith transfer_from_data ''23b872dd''
   \<and> parse_usdt_transfer scan_ext (sample_call ''t4'' (JStr transfer_from_data)) 7 (JInt 1) =
       Inr (Some \<lparr> t_block_number = 7, t_timestamp = JInt 1, t_txid = JStr ''t4'',
                   t_from = CHR ''T'' # ''41'' @ replicate 40 CHR ''a'',
                   t_to = CHR ''T'' # ''41'' @ replicate 40 CHR ''b'', t_amount = 1,
                   t_method = Some ''transferFrom'', t_resource = None \<rparr>)
   \<and> parse_usdt_transfer scan_ext (sample_call ''t5'' (JStr approve_data)) 7 (JInt 1) = Inr None
   \<and> count_usdt scan_ext None 7 (JInt 1) (sample_call ''t5'' (JStr approve_data)) empty_result =
       Inr (empty_result\<lparr>total_transactions := 1, failed_parse := 1,
                          failed_txids := [JStr ''t5'']\<rparr>)"
  using parse_usdt_transfer_fields
    [OF sample_call_contract [of "''t1''" "JStr transfer_data"] sample_contract_value sample_value_data,
     where x = scan_ext
       and to_addr = "CHR ''T'' # ''41'' @ replicate 40 CHR ''b''"
       and from_addr = "CHR ''T'' # ''41'' @ replicate 40 CHR ''a''"
       and n = 1000000 and amount = 1 and owner = "JStr (''41'' @ replicate 40 CHR ''a'')"
       and tid = "JStr ''t1''" and block_num = 7 and block_timestamp = "JInt 1"]
    parse_usdt_transfer_fields
    [OF sample_call_contract [of "''t4''" "JStr transfer_from_data"] sample_contract_value sample_value_data,
     where x = scan_ext
       and to_addr = "CHR ''T'' # ''41'' @ replicate 40 CHR ''b''"
       and from_addr = "CHR ''T'' # ''41'' @ replicate 40 CHR ''a''"
       and n = 1000000 and amount = 1
       and tid = "JStr ''t4''" and block_num = 7 and block_timestamp = "JInt 1"]
    parse_usdt_transfer_fields
    [OF sample_call_contract [of "''t5''" "JStr approve_data"] sample_contract_value sample_value_data,
     where x = scan_ext
       and tid = "JStr ''t5''" and block_num = 7 and block_timestamp = "JInt 1"
       and address = None and res = empty_result]
    sample_transfer_fields sample_transfer_from_fields sample_approve_selector
    sample_value_owner [of "JStr transfer_data"]
  by (simp add: sample_call_contract sample_call_txid empty_result_def)

text \<open>The claim as stated fails on call data that starts with the selector of
  \<open>transfer\<close> and ends before the amount: \<open>int('', 16)\<close> raises, the parser returns
  \<open>None\<close>, and the scan counts the transaction as a failed parse.\<close>

theorem parse_usdt_transfer_fields_counterexample:
  "startswith short_data ''a9059cbb''
   \<and> parse_usdt_transfer scan_ext (sample_call ''t2'' (JStr short_data)) 7 (JInt 1) = Inr None
   \<and> count_usdt scan_ext None 7 (JInt 1) (sample_call ''t2'' (JStr short_data)) empty_result
       = Inr (empty_result\<lparr>total_transactions := 1, failed_parse := 1,
                            failed_txids := [JStr ''t2'']\<rparr>)"
  by code_simp

subsection \<open>Waiting\<close>













end
